theory Spec2Isabelle
  imports Main "HOL-Library.Word"
begin

section \<open>JavaScript values used by the bridge\<close>

text \<open>
  A JavaScript string is a sequence of UTF-16 code units; \<open>charCodeAt\<close> reads one
  unit as a number in \<open>[0, 65535]\<close>. A \<open>number[]\<close> is a list of naturals.
\<close>

type_synonym codeunit = "16 word"
type_synonym jsstring = "codeunit list"

definition lit :: "string \<Rightarrow> jsstring" where
  \<comment> \<open>A source-text literal made of ASCII characters.\<close>
  "lit s = map of_char s"

definition charCodes :: "jsstring \<Rightarrow> nat list" where
  \<comment> \<open>\<open>charCodeAt(i)\<close> for every index of the string.\<close>
  "charCodes s = map unat s"

definition fromCharCodes :: "nat list \<Rightarrow> jsstring" where
  \<comment> \<open>\<open>String.fromCharCode(...ns)\<close>: each number is taken modulo \<open>2^16\<close>.\<close>
  "fromCharCodes ns = map of_nat ns"

text \<open>
  \<open>String.prototype.toUpperCase\<close>, one code unit at a time. The mapping is the Unicode
  one for every unit below 256 (Basic Latin and Latin-1 Supplement, with the three
  units whose upper case leaves Latin-1). A unit from 256 upwards is kept as it is, which
  is what the built-in does for a character without an upper-case form (U+20AC, say);
  the case mappings beyond Latin-1 are not part of this model.
\<close>

definition upperUnit :: "codeunit \<Rightarrow> jsstring" where
  "upperUnit c =
     (if 0x61 \<le> c \<and> c \<le> 0x7A then [c - 0x20]
      else if c = 0xB5 then [0x39C]
      else if c = 0xDF then [0x53, 0x53]
      else if 0xE0 \<le> c \<and> c \<le> 0xFE \<and> c \<noteq> 0xF7 then [c - 0x20]
      else if c = 0xFF then [0x178]
      else [c])"

definition toUpperCase :: "jsstring \<Rightarrow> jsstring" where
  "toUpperCase s = concat (map upperUnit s)"

text \<open>
  \<open>Number.prototype.toString()\<close> on an integer: decimal digits, a minus sign for a
  negative one (the exponent form starts at \<open>10^21\<close>, far from the values printed here).
\<close>

definition digitChar :: "nat \<Rightarrow> codeunit" where
  \<comment> \<open>The digit characters \<open>0\<close> to \<open>9\<close>, then \<open>a\<close>, \<open>b\<close>, ... in lower case.\<close>
  "digitChar d = (if d < 10 then of_nat (48 + d) else of_nat (87 + d))"

function digitsOf :: "nat \<Rightarrow> nat \<Rightarrow> jsstring" where
  \<comment> \<open>\<open>n.toString(b)\<close> for a natural number \<open>n\<close>; the radix is 10 or 16 here.\<close>
  "digitsOf b n =
     (if b < 2 \<or> n < b then [digitChar n] else digitsOf b (n div b) @ [digitChar (n mod b)])"
  by pat_completeness auto
termination
  by (relation "measure (\<lambda>(b, n). n)") auto

declare digitsOf.simps [simp del]

definition numberToString :: "int \<Rightarrow> jsstring" where
  "numberToString i =
     (if i < 0 then lit ''-'' @ digitsOf 10 (nat (- i)) else digitsOf 10 (nat i))"

text \<open>
  Values a property read on a plain object can give back. \<open>SYSTEM_CODES\<close> and
  \<open>LOCATION_CODES\<close> are object literals, so a read first looks at the object's own
  keys and then at \<open>Object.prototype\<close>, whose methods are native functions. The
  function is served by Deno, which deletes the accessor \<open>__proto__\<close> from
  \<open>Object.prototype\<close>: that key answers \<open>undefined\<close> like any other missing one.
\<close>

datatype jsvalue =
    JUndefined
  | JString jsstring
  | JNativeFunction jsstring

definition objectPrototypeMethods :: "(jsstring \<times> jsstring) list" where
  \<comment> \<open>Property key and the name of the native function found there.\<close>
  "objectPrototypeMethods =
     [(lit ''constructor'', lit ''Object''),
      (lit ''hasOwnProperty'', lit ''hasOwnProperty''),
      (lit ''isPrototypeOf'', lit ''isPrototypeOf''),
      (lit ''propertyIsEnumerable'', lit ''propertyIsEnumerable''),
      (lit ''toLocaleString'', lit ''toLocaleString''),
      (lit ''toString'', lit ''toString''),
      (lit ''valueOf'', lit ''valueOf''),
      (lit ''__defineGetter__'', lit ''__defineGetter__''),
      (lit ''__defineSetter__'', lit ''__defineSetter__''),
      (lit ''__lookupGetter__'', lit ''__lookupGetter__''),
      (lit ''__lookupSetter__'', lit ''__lookupSetter__'')]"

definition inheritedKeys :: "jsstring list" where
  "inheritedKeys = map fst objectPrototypeMethods"

definition objectPrototype :: "jsstring \<Rightarrow> jsvalue" where
  "objectPrototype key =
     (case map_of objectPrototypeMethods key of
        Some name \<Rightarrow> JNativeFunction name
      | None \<Rightarrow> JUndefined)"

definition getProperty :: "(jsstring \<times> jsstring) list \<Rightarrow> jsstring \<Rightarrow> jsvalue" where
  \<comment> \<open>\<open>table[key]\<close> on an object literal with the listed own properties.\<close>
  "getProperty table key =
     (case map_of table key of
        Some v \<Rightarrow> JString v
      | None \<Rightarrow> objectPrototype key)"

fun truthy :: "jsvalue \<Rightarrow> bool" where
  "truthy JUndefined = False"
| "truthy (JString s) = (s \<noteq> [])"
| "truthy (JNativeFunction n) = True"

definition orElse :: "jsvalue \<Rightarrow> jsvalue \<Rightarrow> jsvalue" where
  \<comment> \<open>The operator \<open>a || b\<close>.\<close>
  "orElse a b = (if truthy a then a else b)"

fun toStringJS :: "jsvalue \<Rightarrow> jsstring" where
  \<comment> \<open>The conversion a template literal applies to \<open>${...}\<close>.\<close>
  "toStringJS JUndefined = lit ''undefined''"
| "toStringJS (JString s) = s"
| "toStringJS (JNativeFunction n) = lit ''function '' @ n @ lit ''() { [native code] }''"

definition optValue :: "jsstring option \<Rightarrow> jsvalue" where
  \<comment> \<open>An optional string field of a parsed object: absent reads as \<open>undefined\<close>.\<close>
  "optValue f = (case f of None \<Rightarrow> JUndefined | Some s \<Rightarrow> JString s)"

section \<open>The command encoder (supabase/functions/arduino-bridge/index.ts)\<close>

definition SYSTEM_CODES :: "(jsstring \<times> jsstring) list" where
  "SYSTEM_CODES =
     [(lit ''lung'', lit ''L''),
      (lit ''heart'', lit ''H''),
      (lit ''bowel'', lit ''B'')]"

definition LOCATION_CODES :: "(jsstring \<times> jsstring) list" where
  "LOCATION_CODES =
     [(lit ''right-upper-anterior'', lit ''RUA''),
      (lit ''right-middle-anterior'', lit ''RMA''),
      (lit ''right-lower-anterior'', lit ''RLA''),
      (lit ''left-upper-anterior'', lit ''LUA''),
      (lit ''left-lower-anterior'', lit ''LLA''),
      (lit ''right-upper-posterior'', lit ''RUP''),
      (lit ''right-middle-posterior'', lit ''RMP''),
      (lit ''right-lower-posterior'', lit ''RLP''),
      (lit ''left-upper-posterior'', lit ''LUP''),
      (lit ''left-middle-posterior'', lit ''LMP''),
      (lit ''left-lower-posterior'', lit ''LLP''),
      (lit ''aortic'', lit ''AOR''),
      (lit ''pulmonic'', lit ''PUL''),
      (lit ''erbs-point'', lit ''ERB''),
      (lit ''tricuspid'', lit ''TRI''),
      (lit ''mitral'', lit ''MIT''),
      (lit ''ruq'', lit ''RUQ''),
      (lit ''luq'', lit ''LUQ''),
      (lit ''rlq'', lit ''RLQ''),
      (lit ''llq'', lit ''LLQ''),
      (lit ''periumbilical'', lit ''PER'')]"

text \<open>
  \<open>ArduinoCommand\<close> as it arrives from \<open>req.json()\<close>: every field may be absent.
  \<open>volume\<close> is a JavaScript number; the callers of this system pass integers (the
  slider value, or the default 5), so it is an \<open>int\<close> here.
\<close>

record ArduinoCommand =
  action :: "jsstring option"
  system :: "jsstring option"
  soundCode :: "jsstring option"
  location :: "jsstring option"
  volume :: "int option"

record FormattedCommand =
  raw :: jsstring
  bytes :: "nat list"
  checksum :: nat
  description :: jsstring

definition calculateChecksum :: "jsstring \<Rightarrow> nat" where
  \<comment> \<open>The \<open>for\<close> loop adds \<open>charCodeAt(i)\<close> to \<open>sum\<close>, from left to right.\<close>
  "calculateChecksum data = foldl (\<lambda>sum c. sum + unat c) 0 data mod 256"

definition volumeOrDefault :: "int option \<Rightarrow> int" where
  \<comment> \<open>\<open>command.volume || 5\<close>: \<open>undefined\<close> and \<open>0\<close> are both falsy.\<close>
  "volumeOrDefault v = (case v of None \<Rightarrow> 5 | Some n \<Rightarrow> if n = 0 then 5 else n)"

definition clampVolume :: "int \<Rightarrow> int" where
  \<comment> \<open>\<open>Math.min(10, Math.max(0, x))\<close>.\<close>
  "clampVolume x = min 10 (max 0 x)"

definition STX :: nat where "STX = 0x02"
definition ETX :: nat where "ETX = 0x03"

definition playFields :: "ArduinoCommand \<Rightarrow> jsstring \<times> jsstring \<times> jsstring \<times> int" where
  \<comment> \<open>The four constants of the \<open>'play'\<close> case.\<close>
  "playFields command =
     (let systemCode =
            toStringJS (orElse (getProperty SYSTEM_CODES
              (toStringJS (orElse (optValue (system command)) (JString []))))
              (JString (lit ''U'')));
          soundCode' =
            toStringJS (orElse (optValue (map_option toUpperCase (soundCode command)))
              (JString (lit ''UNK'')));
          locationCode =
            toStringJS (orElse (getProperty LOCATION_CODES
              (toStringJS (orElse (optValue (location command)) (JString []))))
              (JString (lit ''UNK'')));
          volume' = clampVolume (volumeOrDefault (volume command))
      in (systemCode, soundCode', locationCode, volume'))"

definition rawAndDescription :: "ArduinoCommand \<Rightarrow> jsstring \<times> jsstring" where
  \<comment> \<open>The \<open>switch\<close> on \<open>command.action\<close>.\<close>
  "rawAndDescription command =
     (if action command = Some (lit ''play'') then
        (case playFields command of (systemCode, soundCode', locationCode, volume') \<Rightarrow>
          (lit ''P:'' @ systemCode @ lit '':'' @ soundCode' @ lit '':'' @ locationCode
             @ lit '':'' @ numberToString volume',
           lit ''Play '' @ toStringJS (optValue (system command)) @ lit '' sound \"''
             @ soundCode' @ lit ''\" at '' @ toStringJS (optValue (location command))
             @ lit '' with volume '' @ numberToString volume'))
      else if action command = Some (lit ''stop'') then
        (lit ''S'', lit ''Stop all playback'')
      else if action command = Some (lit ''volume'') then
        (let vol = clampVolume (volumeOrDefault (volume command))
         in (lit ''V:'' @ numberToString vol, lit ''Set volume to '' @ numberToString vol))
      else if action command = Some (lit ''status'') then
        (lit ''Q'', lit ''Query device status'')
      else
        (lit ''N'', lit ''No operation''))"

definition formatCommand :: "ArduinoCommand \<Rightarrow> FormattedCommand" where
  "formatCommand command =
     (case rawAndDescription command of (raw', description') \<Rightarrow>
        let checksum' = calculateChecksum raw';
            bytes' = foldl (\<lambda>bs c. bs @ [unat c]) [STX] raw';
            bytes'' = bytes' @ [ETX];
            bytes''' = bytes'' @ [checksum']
        in \<lparr>raw = raw', bytes = bytes''', checksum = checksum', description = description'\<rparr>)"

section \<open>The formatting endpoint (the \<open>serve\<close> handler of index.ts)\<close>

text \<open>
  A thrown value: an \<open>Error\<close> object with its \<open>name\<close> and \<open>message\<close>, or anything
  else. Both \<open>catch\<close> blocks read \<open>error instanceof Error ? error.message : 'Unknown error'\<close>.
\<close>

datatype thrown = ErrorObject jsstring jsstring | OtherThrown

fun errorMessage :: "thrown \<Rightarrow> jsstring" where
  "errorMessage (ErrorObject name message) = message"
| "errorMessage OtherThrown = lit ''Unknown error''"






















section \<open>The serial hook (src/hooks/useArduinoSerial.ts)\<close>

datatype parity = ParityNone | ParityEven | ParityOdd

record SerialOptions =
  baudRate :: nat
  dataBits :: "nat option"
  stopBits :: "nat option"
  parity :: "parity option"

record PartialSerialOptions =
  baudRate' :: "nat option"
  dataBits' :: "nat option"
  stopBits' :: "nat option"
  parity' :: "parity option"

definition DEFAULT_SERIAL_OPTIONS :: SerialOptions where
  "DEFAULT_SERIAL_OPTIONS =
     \<lparr>baudRate = 9600, dataBits = Some 8, stopBits = Some 1, parity = Some ParityNone\<rparr>"

definition mergeOptions :: "SerialOptions \<Rightarrow> PartialSerialOptions \<Rightarrow> SerialOptions" where
  \<comment> \<open>\<open>{ ...DEFAULT_SERIAL_OPTIONS, ...options }\<close>: a key present in \<open>options\<close> wins.\<close>
  "mergeOptions d opts =
     \<lparr>baudRate = (case baudRate' opts of None \<Rightarrow> baudRate d | Some b \<Rightarrow> b),
      dataBits = (case dataBits' opts of None \<Rightarrow> dataBits d | Some b \<Rightarrow> Some b),
      stopBits = (case stopBits' opts of None \<Rightarrow> stopBits d | Some b \<Rightarrow> Some b),
      parity = (case parity' opts of None \<Rightarrow> parity d | Some b \<Rightarrow> Some b)\<rparr>"

text \<open>
  A port the chooser hands out: an identity, and whether its \<open>readable\<close> and
  \<open>writable\<close> streams are non-null once it is open.
\<close>

record SerialPort =
  portId :: nat
  readable :: bool
  writable :: bool

record DeviceStatus =
  connected :: bool
  portName :: "jsstring option"
  lastResponse :: "jsstring option"
  lastCommandTime :: "nat option"

text \<open>
  Calls the hook makes on the world outside it, in the order it makes them.
\<close>

datatype toastKind = ToastError | ToastInfo | ToastSuccess

datatype effect =
    Toast toastKind jsstring
  | ConsoleError jsstring
  | RequestPort
  | PortOpen nat SerialOptions
  | GetWriter nat
  | GetReader nat
  | ReadLoopStarted
  | ReaderCancel
  | ReaderReleaseLock
  | WriterClose
  | PortClose

text \<open>
  The hook's React state and refs. \<open>effects\<close> records the outside calls made so far
  and \<open>clockReads\<close> counts the \<open>new Date()\<close> reads, so that the \<open>n\<close>-th log line
  carries the time \<open>clock n\<close> (its \<open>toLocaleTimeString()\<close>).
\<close>

record HookState =
  isSupported :: bool
  isConnected :: bool
  isConnecting :: bool
  deviceStatus :: DeviceStatus
  logs :: "jsstring list"
  portRef :: "SerialPort option"
  readerRef :: "nat option"
  writerRef :: "nat option"
  effects :: "effect list"
  clockReads :: nat

definition initialDeviceStatus :: DeviceStatus where
  "initialDeviceStatus =
     \<lparr>connected = False, portName = None, lastResponse = None, lastCommandTime = None\<rparr>"

definition initialState :: "bool \<Rightarrow> HookState" where
  \<comment> \<open>The \<open>useState\<close>/\<open>useRef\<close> initial values, after the mount effect has set \<open>isSupported\<close>.\<close>
  "initialState supported =
     \<lparr>isSupported = supported, isConnected = False, isConnecting = False,
      deviceStatus = initialDeviceStatus, logs = [], portRef = None, readerRef = None,
      writerRef = None, effects = [], clockReads = 0\<rparr>"

definition sliceLast :: "nat \<Rightarrow> 'a list \<Rightarrow> 'a list" where
  \<comment> \<open>\<open>xs.slice(-n)\<close> for \<open>n > 0\<close>: the last \<open>n\<close> elements, all of them when there are fewer.\<close>
  "sliceLast n xs = drop (length xs - n) xs"

definition logLine :: "jsstring \<Rightarrow> jsstring \<Rightarrow> jsstring" where
  "logLine timestamp message = lit ''['' @ timestamp @ lit ''] '' @ message"

definition addLog :: "(nat \<Rightarrow> jsstring) \<Rightarrow> jsstring \<Rightarrow> HookState \<Rightarrow> HookState" where
  "addLog clock message st =
     st\<lparr>logs := sliceLast 99 (logs st) @ [logLine (clock (clockReads st)) message],
        clockReads := clockReads st + 1\<rparr>"

definition clearLogs :: "HookState \<Rightarrow> HookState" where
  "clearLogs st = st\<lparr>logs := []\<rparr>"

definition emit :: "effect \<Rightarrow> HookState \<Rightarrow> HookState" where
  "emit e st = st\<lparr>effects := effects st @ [e]\<rparr>"

subsection \<open>connect\<close>

fun startsWith :: "'a list \<Rightarrow> 'a list \<Rightarrow> bool" where
  "startsWith s [] = True"
| "startsWith [] (p # ps) = False"
| "startsWith (c # cs) (p # ps) = (c = p \<and> startsWith cs ps)"

fun includesText :: "'a list \<Rightarrow> 'a list \<Rightarrow> bool" where
  \<comment> \<open>\<open>s.includes(p)\<close>.\<close>
  "includesText [] p = (p = [])"
| "includesText (c # cs) p = (startsWith (c # cs) p \<or> includesText cs p)"

text \<open>
  What the browser answers during one \<open>connect\<close>: the chooser's port or the thrown
  value of \<open>requestPort()\<close>, and the thrown value of \<open>port.open()\<close> if it fails.
  \<open>getWriter()\<close> and \<open>getReader()\<close> are called on the streams of a port that has just
  been opened, where no lock is held yet, so they return.
\<close>

record ConnectEnv =
  requestPortResult :: "thrown + SerialPort"
  openResult :: "thrown option"

text \<open>
  \<open>connect\<close> is made by \<open>useCallback(..., [isSupported, isConnected, addLog])\<close>: the
  function a render hands out reads the \<open>isSupported\<close> and \<open>isConnected\<close> of that
  render, whatever the state is when it is called. Its writes (\<open>setIsConnecting\<close>,
  \<open>setIsConnected\<close>, \<open>setDeviceStatus\<close>, the refs, the log) go to the live state.
\<close>

record ConnectClosure =
  capturedIsSupported :: bool
  capturedIsConnected :: bool

definition callbackOf :: "HookState \<Rightarrow> ConnectClosure" where
  \<comment> \<open>The \<open>connect\<close> of the render that shows state \<open>st\<close>.\<close>
  "callbackOf st =
     \<lparr>capturedIsSupported = isSupported st, capturedIsConnected = isConnected st\<rparr>"

definition connectFailed :: "(nat \<Rightarrow> jsstring) \<Rightarrow> thrown \<Rightarrow> HookState \<Rightarrow> bool \<times> HookState" where
  \<comment> \<open>The \<open>catch\<close> block of \<open>connect\<close>, followed by its \<open>finally\<close>.\<close>
  "connectFailed clock error st =
     (let st1 = emit (ConsoleError (lit ''Failed to connect:'')) st;
          message = errorMessage error;
          st2 = addLog clock (lit ''Connection failed: '' @ message) st1;
          st3 = (if includesText message (lit ''No port selected'') then st2
                 else emit (Toast ToastError (lit ''Failed to connect: '' @ message)) st2)
      in (False, st3\<lparr>isConnecting := False\<rparr>))"

definition connect ::
  "ConnectEnv \<Rightarrow> (nat \<Rightarrow> jsstring) \<Rightarrow> PartialSerialOptions \<Rightarrow> ConnectClosure \<Rightarrow> HookState
     \<Rightarrow> bool \<times> HookState" where
  "connect env clock options closure st =
     (if \<not> capturedIsSupported closure then
        (False, emit (Toast ToastError (lit ''WebSerial is not supported in this browser'')) st)
      else if capturedIsConnected closure then
        (True, emit (Toast ToastInfo (lit ''Already connected to a device'')) st)
      else
        (let st1 = emit RequestPort (st\<lparr>isConnecting := True\<rparr>)
         in case requestPortResult env of
              Inl error \<Rightarrow> connectFailed clock error st1
            | Inr port \<Rightarrow>
                (let serialOptions = mergeOptions DEFAULT_SERIAL_OPTIONS options;
                     st2 = emit (PortOpen (portId port) serialOptions) st1
                 in case openResult env of
                      Some error \<Rightarrow> connectFailed clock error st2
                    | None \<Rightarrow>
                        (let st3 = st2\<lparr>portRef := Some port\<rparr>;
                             st4 = (if writable port
                                    then emit (GetWriter (portId port))
                                           (st3\<lparr>writerRef := Some (portId port)\<rparr>)
                                    else st3);
                             st5 = (if readable port
                                    then emit ReadLoopStarted
                                           (emit (GetReader (portId port))
                                             (st4\<lparr>readerRef := Some (portId port)\<rparr>))
                                    else st4);
                             st6 = st5\<lparr>isConnected := True,
                                       deviceStatus := (deviceStatus st5)
                                         \<lparr>connected := True,
                                          portName := Some (lit ''Arduino Device'')\<rparr>\<rparr>;
                             st7 = addLog clock (lit ''Connected to serial device'') st6;
                             st8 = emit (Toast ToastSuccess (lit ''Connected to Arduino'')) st7
                         in (True, st8\<lparr>isConnecting := False\<rparr>)))))"

subsection \<open>readLoop\<close>

definition isTerminator :: "codeunit \<Rightarrow> bool" where
  \<comment> \<open>The character class \<open>[\n\x03]\<close>.\<close>
  "isTerminator c = (c = 0x0A \<or> c = 0x03)"

fun splitAcc :: "(codeunit \<Rightarrow> bool) \<Rightarrow> jsstring \<Rightarrow> jsstring \<Rightarrow> jsstring list" where
  \<comment> \<open>\<open>s.split(/[...]/)\<close>: \<open>cur\<close> is the segment being read, back to front.\<close>
  "splitAcc p cur [] = [rev cur]"
| "splitAcc p cur (c # cs) =
     (if p c then rev cur # splitAcc p [] cs else splitAcc p (c # cur) cs)"

definition splitRegExp :: "(codeunit \<Rightarrow> bool) \<Rightarrow> jsstring \<Rightarrow> jsstring list" where
  "splitRegExp p s = splitAcc p [] s"

definition pop :: "'a list \<Rightarrow> 'a option \<times> 'a list" where
  \<comment> \<open>\<open>xs.pop()\<close>: the removed last element (\<open>undefined\<close> on an empty array) and the rest.\<close>
  "pop xs = (if xs = [] then (None, []) else (Some (last xs), butlast xs))"

definition isWhiteSpace :: "codeunit \<Rightarrow> bool" where
  \<comment> \<open>What \<open>trim()\<close> strips: WhiteSpace and LineTerminator code points.\<close>
  "isWhiteSpace c =
     (c = 0x09 \<or> c = 0x0A \<or> c = 0x0B \<or> c = 0x0C \<or> c = 0x0D \<or> c = 0x20 \<or> c = 0xA0
      \<or> c = 0x1680 \<or> (0x2000 \<le> c \<and> c \<le> 0x200A) \<or> c = 0x2028 \<or> c = 0x2029
      \<or> c = 0x202F \<or> c = 0x205F \<or> c = 0x3000 \<or> c = 0xFEFF)"

definition trim :: "jsstring \<Rightarrow> jsstring" where
  "trim s = rev (dropWhile isWhiteSpace (rev (dropWhile isWhiteSpace s)))"

definition receivedPrefix :: jsstring where
  \<comment> \<open>The arrow U+2190 and a space.\<close>
  "receivedPrefix = [0x2190, 0x20]"

definition handleLine :: "(nat \<Rightarrow> jsstring) \<Rightarrow> HookState \<Rightarrow> jsstring \<Rightarrow> HookState" where
  \<comment> \<open>The body of \<open>for (const line of lines)\<close>.\<close>
  "handleLine clock st line =
     (if trim line \<noteq> [] then
        (let st1 = addLog clock (receivedPrefix @ trim line) st
         in st1\<lparr>deviceStatus := (deviceStatus st1)\<lparr>lastResponse := Some (trim line)\<rparr>\<rparr>)
      else st)"

definition processChunk ::
  "(nat \<Rightarrow> jsstring) \<Rightarrow> jsstring \<Rightarrow> jsstring \<times> HookState \<Rightarrow> jsstring \<times> HookState" where
  \<comment> \<open>One turn of the \<open>while\<close> loop after a read that was not \<open>done\<close>; \<open>decoded\<close> is
      \<open>decoder.decode(value, { stream: true })\<close>.\<close>
  "processChunk clock decoded bst =
     (case bst of (buffer, st) \<Rightarrow>
        let buffer1 = buffer @ decoded;
            (popped, lines) = pop (splitRegExp isTerminator buffer1);
            buffer2 = (case popped of None \<Rightarrow> [] | Some s \<Rightarrow> s)
        in (buffer2, foldl (handleLine clock) st lines))"

text \<open>
  What one \<open>reader.read()\<close> gives: a chunk, here as the text the streaming
  \<open>TextDecoder\<close> makes of it, the end of the stream, or a thrown value.
\<close>

datatype readResult = Chunk jsstring | Done | ReadThrows thrown

fun readLoopFrom ::
  "(nat \<Rightarrow> jsstring) \<Rightarrow> readResult list \<Rightarrow> jsstring \<times> HookState \<Rightarrow> HookState" where
  \<comment> \<open>The loop over the results of \<open>reader.read()\<close>; with no result left it is still
      waiting, and the state so far is the answer.\<close>
  "readLoopFrom clock [] (buffer, st) = st"
| "readLoopFrom clock (Chunk decoded # rs) (buffer, st) =
     readLoopFrom clock rs (processChunk clock decoded (buffer, st))"
| "readLoopFrom clock (Done # rs) (buffer, st) = st"
| "readLoopFrom clock (ReadThrows error # rs) (buffer, st) =
     (case error of
        ErrorObject name message \<Rightarrow>
          if name \<noteq> lit ''NetworkError''
          then addLog clock (lit ''Read error: '' @ message)
                 (emit (ConsoleError (lit ''Read error:'')) st)
          else st
      | OtherThrown \<Rightarrow> st)"

definition readLoop :: "(nat \<Rightarrow> jsstring) \<Rightarrow> readResult list \<Rightarrow> HookState \<Rightarrow> HookState" where
  "readLoop clock reads st =
     (if readerRef st = None then st else readLoopFrom clock reads ([], st))"

subsection \<open>disconnect\<close>

text \<open>
  What the four calls of one \<open>disconnect\<close> answer: \<open>None\<close> when the call returns, the
  thrown value when it does not.
\<close>

record DisconnectEnv =
  cancelResult :: "thrown option"
  releaseLockResult :: "thrown option"
  writerCloseResult :: "thrown option"
  portCloseResult :: "thrown option"

definition attempt ::
  "effect \<Rightarrow> thrown option \<Rightarrow> HookState \<Rightarrow> (thrown \<times> HookState) + HookState" where
  \<comment> \<open>One call inside the \<open>try\<close> block: it is made, and either returns or throws.\<close>
  "attempt e result st =
     (case result of None \<Rightarrow> Inr (emit e st) | Some error \<Rightarrow> Inl (error, emit e st))"

definition andThen ::
  "(thrown \<times> HookState) + HookState \<Rightarrow> (HookState \<Rightarrow> (thrown \<times> HookState) + HookState)
     \<Rightarrow> (thrown \<times> HookState) + HookState" where
  \<comment> \<open>Sequencing inside a \<open>try\<close> block: a throw skips what follows.\<close>
  "andThen r f = (case r of Inl failure \<Rightarrow> Inl failure | Inr st \<Rightarrow> f st)"

definition teardown :: "DisconnectEnv \<Rightarrow> (nat \<Rightarrow> jsstring) \<Rightarrow> HookState \<Rightarrow> (thrown \<times> HookState) + HookState" where
  \<comment> \<open>The \<open>try\<close> block of \<open>disconnect\<close>.\<close>
  "teardown env clock st =
     andThen
       (if readerRef st \<noteq> None then
          andThen (attempt ReaderCancel (cancelResult env) st) (\<lambda>st1.
          andThen (attempt ReaderReleaseLock (releaseLockResult env) st1) (\<lambda>st2.
          Inr (st2\<lparr>readerRef := None\<rparr>)))
        else Inr st) (\<lambda>st3.
     andThen
       (if writerRef st3 \<noteq> None then
          andThen (attempt WriterClose (writerCloseResult env) st3) (\<lambda>st4.
          Inr (st4\<lparr>writerRef := None\<rparr>))
        else Inr st3) (\<lambda>st5.
     andThen
       (if portRef st5 \<noteq> None then
          andThen (attempt PortClose (portCloseResult env) st5) (\<lambda>st6.
          Inr (st6\<lparr>portRef := None\<rparr>))
        else Inr st5) (\<lambda>st7.
     Inr (emit (Toast ToastSuccess (lit ''Disconnected from Arduino''))
            (addLog clock (lit ''Disconnected from serial device'')
              (st7\<lparr>isConnected := False, deviceStatus := initialDeviceStatus\<rparr>))))))"

definition disconnect :: "DisconnectEnv \<Rightarrow> (nat \<Rightarrow> jsstring) \<Rightarrow> HookState \<Rightarrow> HookState" where
  "disconnect env clock st =
     (case teardown env clock st of
        Inr st' \<Rightarrow> st'
      | Inl (error, st') \<Rightarrow>
          addLog clock (lit ''Disconnect error: '' @ errorMessage error)
            (emit (ConsoleError (lit ''Disconnect error:'')) st'))"

section \<open>Vocabulary of the properties\<close>

subsection \<open>Frames and their text\<close>

definition slice :: "nat \<Rightarrow> nat \<Rightarrow> 'a list \<Rightarrow> 'a list" where
  \<comment> \<open>\<open>xs.slice(s, e)\<close> for indices inside the array.\<close>
  "slice s e xs = take (e - s) (drop s xs)"

definition lastField :: "jsstring \<Rightarrow> jsstring" where
  \<comment> \<open>The text after the last colon: the volume field of a play or volume frame.\<close>
  "lastField s = rev (takeWhile (\<lambda>c. c \<noteq> 0x3A) (rev s))"

definition isDecimalDigit :: "codeunit \<Rightarrow> bool" where
  "isDecimalDigit u = (0x30 \<le> u \<and> u \<le> 0x39)"

definition isAscii :: "jsstring \<Rightarrow> bool" where
  "isAscii s = list_all (\<lambda>c. c < 0x80) s"

definition fitsByte :: "jsstring \<Rightarrow> bool" where
  \<comment> \<open>Every code unit is below 256.\<close>
  "fitsByte s = list_all (\<lambda>u. u < 0x100) s"

definition keyOf :: "jsstring option \<Rightarrow> jsstring" where
  \<comment> \<open>\<open>field || ''\<close>, the key the tables are read at.\<close>
  "keyOf f = toStringJS (orElse (optValue f) (JString []))"

definition specSystemCode :: "jsstring option \<Rightarrow> jsstring" where
  \<comment> \<open>The specification's system code: L for lung, H for heart, B for bowel, U otherwise.\<close>
  "specSystemCode s =
     (if s = Some (lit ''lung'') then lit ''L''
      else if s = Some (lit ''heart'') then lit ''H''
      else if s = Some (lit ''bowel'') then lit ''B''
      else lit ''U'')"

definition specLocationCode :: "jsstring option \<Rightarrow> jsstring" where
  \<comment> \<open>The specification's location code: the table entry, \<open>UNK\<close> for an unmapped key.\<close>
  "specLocationCode l =
     (case l of
        None \<Rightarrow> lit ''UNK''
      | Some k \<Rightarrow> (case map_of LOCATION_CODES k of None \<Rightarrow> lit ''UNK'' | Some v \<Rightarrow> v))"

definition specSoundCode :: "jsstring option \<Rightarrow> jsstring" where
  \<comment> \<open>The specification's sound code: upper-cased, \<open>UNK\<close> when missing or empty.\<close>
  "specSoundCode sc =
     (case sc of None \<Rightarrow> lit ''UNK'' | Some s \<Rightarrow> if s = [] then lit ''UNK'' else toUpperCase s)"

subsection \<open>Requests and hex dumps\<close>








subsection \<open>Logs, messages and outside calls\<close>

definition logAll :: "(nat \<Rightarrow> jsstring) \<Rightarrow> jsstring list \<Rightarrow> HookState \<Rightarrow> HookState" where
  \<comment> \<open>Sequential insertions: \<open>addLog\<close> called once for each message, in order.\<close>
  "logAll clock ms st = foldl (\<lambda>s m. addLog clock m s) st ms"

fun stamped :: "(nat \<Rightarrow> jsstring) \<Rightarrow> nat \<Rightarrow> jsstring list \<Rightarrow> jsstring list" where
  \<comment> \<open>The lines the messages become when the first one is stamped at clock read \<open>n\<close>.\<close>
  "stamped clock n [] = []"
| "stamped clock n (m # ms) = logLine (clock n) m # stamped clock (Suc n) ms"

definition recordReceived :: "(nat \<Rightarrow> jsstring) \<Rightarrow> HookState \<Rightarrow> jsstring \<Rightarrow> HookState" where
  \<comment> \<open>A complete message is logged as received and becomes \<open>lastResponse\<close>.\<close>
  "recordReceived clock st message =
     (addLog clock (receivedPrefix @ message) st)
       \<lparr>deviceStatus := (deviceStatus st)\<lparr>lastResponse := Some message\<rparr>\<rparr>"

definition completeMessages :: "jsstring \<Rightarrow> jsstring list" where
  \<comment> \<open>Every segment but the last, trimmed, the empty ones left out.\<close>
  "completeMessages s = filter (\<lambda>m. m \<noteq> []) (map trim (butlast (splitRegExp isTerminator s)))"

definition newEffects :: "HookState \<Rightarrow> HookState \<Rightarrow> effect list" where
  \<comment> \<open>The outside calls made between an earlier state and a later one.\<close>
  "newEffects st st' = drop (length (effects st)) (effects st')"

subsection \<open>Concrete situations\<close>




definition fixedClock :: "nat \<Rightarrow> jsstring" where
  \<comment> \<open>A clock that stands still.\<close>
  "fixedClock n = lit ''12:00:00''"

definition noOptions :: PartialSerialOptions where
  \<comment> \<open>The default argument \<open>options = {}\<close>.\<close>
  "noOptions = \<lparr>baudRate' = None, dataBits' = None, stopBits' = None, parity' = None\<rparr>"

definition arduinoPort :: SerialPort where
  "arduinoPort = \<lparr>portId = 1, readable = True, writable = True\<rparr>"

definition portGranted :: ConnectEnv where
  \<comment> \<open>The user picks the port and it opens.\<close>
  "portGranted = \<lparr>requestPortResult = Inr arduinoPort, openResult = None\<rparr>"

definition connectedState :: HookState where
  \<comment> \<open>The state after a first successful \<open>connect()\<close>.\<close>
  "connectedState =
     snd (connect portGranted fixedClock noOptions (callbackOf (initialState True))
            (initialState True))"

definition secondPortGranted :: ConnectEnv where
  \<comment> \<open>The user picks another port and it opens.\<close>
  "secondPortGranted =
     \<lparr>requestPortResult = Inr \<lparr>portId = 2, readable = True, writable = True\<rparr>,
      openResult = None\<rparr>"

definition connectingState :: HookState where
  \<comment> \<open>A first \<open>connect()\<close> is waiting for the chooser: \<open>setIsConnecting(true)\<close> has run.\<close>
  "connectingState = (initialState True)\<lparr>isConnecting := True\<rparr>"

definition allSucceed :: DisconnectEnv where
  "allSucceed =
     \<lparr>cancelResult = None, releaseLockResult = None, writerCloseResult = None,
      portCloseResult = None\<rparr>"

definition cancelFails :: DisconnectEnv where
  \<comment> \<open>The device was unplugged: the stream is errored and \<open>cancel()\<close> rejects.\<close>
  "cancelFails =
     \<lparr>cancelResult = Some (ErrorObject (lit ''NetworkError'') (lit ''The device has been lost.'')),
      releaseLockResult = None, writerCloseResult = None, portCloseResult = None\<rparr>"

section \<open>Properties of the encoder\<close>

lemma push_loop: "foldl (\<lambda>bs c. bs @ [unat c]) acc s = acc @ charCodes s"
  by (induction s arbitrary: acc) (simp_all add: charCodes_def)

lemma sum_loop: "foldl (\<lambda>sum c. sum + unat c) a s = a + sum_list (charCodes s)"
  by (induction s arbitrary: a) (simp_all add: charCodes_def)

lemma calculateChecksum_sum: "calculateChecksum s = sum_list (charCodes s) mod 256"
  by (simp add: calculateChecksum_def sum_loop)

lemma formatCommand_fields:
  "raw (formatCommand c) = fst (rawAndDescription c)"
  "checksum (formatCommand c) = calculateChecksum (fst (rawAndDescription c))"
  "bytes (formatCommand c) =
     [STX] @ charCodes (fst (rawAndDescription c))
       @ [ETX, calculateChecksum (fst (rawAndDescription c))]"
  "description (formatCommand c) = snd (rawAndDescription c)"
  by (simp_all add: formatCommand_def Let_def push_loop split: prod.split)

lemma fromCharCodes_charCodes: "fromCharCodes (charCodes s) = s"
  by (simp add: fromCharCodes_def charCodes_def comp_def map_idI)

lemma frame_shape:
  fixes m :: "nat list"
  assumes "xs = a # m @ [b, k]"
  shows "xs ! 0 = a" and "xs ! (length xs - 2) = b" and "xs ! (length xs - 1) = k"
    and "slice 1 (length xs - 2) xs = m"
  using assms by (simp_all add: nth_append slice_def)

text \<open>
  C1. Whatever the command, the frame is STX, the code units of \<open>raw\<close>, ETX and the
  checksum, in this order; the checksum is the sum of the code units of \<open>raw\<close> modulo
  256; the first byte is 0x02, the last but one 0x03, the last the checksum, and the
  slice between index 1 and the last two bytes reads back as \<open>raw\<close>.
\<close>

theorem formatCommand_frame:
  "bytes (formatCommand c) =
     [0x02] @ charCodes (raw (formatCommand c)) @ [0x03, checksum (formatCommand c)]
   \<and> checksum (formatCommand c) = sum_list (charCodes (raw (formatCommand c))) mod 256
   \<and> bytes (formatCommand c) ! 0 = 0x02
   \<and> bytes (formatCommand c) ! (length (bytes (formatCommand c)) - 2) = 0x03
   \<and> bytes (formatCommand c) ! (length (bytes (formatCommand c)) - 1)
       = calculateChecksum (raw (formatCommand c))
   \<and> fromCharCodes (slice 1 (length (bytes (formatCommand c)) - 2) (bytes (formatCommand c)))
       = raw (formatCommand c)"
proof -
  let ?r = "raw (formatCommand c)"
  let ?k = "calculateChecksum ?r"
  have b: "bytes (formatCommand c) = 2 # charCodes ?r @ [3, ?k]"
    by (simp add: formatCommand_fields STX_def ETX_def)
  have k: "checksum (formatCommand c) = ?k"
    by (simp add: formatCommand_fields)
  show ?thesis
    using frame_shape [OF b] b k
    by (simp add: calculateChecksum_sum fromCharCodes_charCodes)
qed

lemma colon: "lit '':'' = [0x3A]"
  by (simp add: lit_def)

lemma sixteen_cases:
  "d < 16 \<Longrightarrow> d = 0 \<or> d = 1 \<or> d = 2 \<or> d = 3 \<or> d = 4 \<or> d = 5 \<or> d = 6 \<or> d = 7
     \<or> d = 8 \<or> d = 9 \<or> d = 10 \<or> d = 11 \<or> d = 12 \<or> d = 13 \<or> d = 14 \<or> d = (15::nat)"
  by arith

lemma digitChar_decimal:
  assumes "d < 10"
  shows "isDecimalDigit (digitChar d)"
proof -
  from assms have "d < 16"
    by simp
  from sixteen_cases [OF this] assms show ?thesis
    by (elim disjE) (simp_all add: isDecimalDigit_def digitChar_def)
qed

lemma decimal_fits: "isDecimalDigit u \<Longrightarrow> u < 0x100"
  unfolding isDecimalDigit_def by unat_arith

lemma digitsOf_decimal: "list_all isDecimalDigit (digitsOf 10 n)"
proof (induction n rule: less_induct)
  case (less n)
  show ?case
  proof (cases "n < 10")
    case True
    then show ?thesis
      by (simp add: digitsOf.simps [of 10 n] digitChar_decimal)
  next
    case False
    then have "n div 10 < n"
      by simp
    with less.IH have "list_all isDecimalDigit (digitsOf 10 (n div 10))"
      by blast
    with False show ?thesis
      by (simp add: digitsOf.simps [of 10 n] digitChar_decimal)
  qed
qed

lemma numberToString_decimal:
  "0 \<le> n \<Longrightarrow> list_all isDecimalDigit (numberToString n)"
  by (simp add: numberToString_def digitsOf_decimal)

lemma numberToString_no_colon:
  assumes "0 \<le> n"
  shows "0x3A \<notin> set (numberToString n)"
  using numberToString_decimal [OF assms]
  by (auto simp: list_all_iff isDecimalDigit_def)

lemma lastField_append:
  "0x3A \<notin> set d \<Longrightarrow> lastField (xs @ 0x3A # d) = d"
proof -
  assume d: "0x3A \<notin> set d"
  have "takeWhile (\<lambda>c. c \<noteq> 0x3A) (rev d @ 0x3A # rev xs) = takeWhile (\<lambda>c. c \<noteq> (0x3A :: codeunit)) (rev d)"
    by (rule takeWhile_tail) simp
  also have "\<dots> = rev d"
    using d by (simp add: takeWhile_eq_all_conv) metis
  finally show ?thesis
    by (simp add: lastField_def)
qed

lemma clampVolume_bounds: "0 \<le> clampVolume v \<and> clampVolume v \<le> 10"
  by (simp add: clampVolume_def)

lemma raw_play:
  "action c = Some (lit ''play'') \<Longrightarrow>
   raw (formatCommand c) =
     (case playFields c of (systemCode, soundCode', locationCode, volume') \<Rightarrow>
        lit ''P:'' @ systemCode @ lit '':'' @ soundCode' @ lit '':'' @ locationCode
          @ lit '':'' @ numberToString volume')"
  by (simp add: formatCommand_fields rawAndDescription_def split: prod.split)

lemma action_names_distinct:
  "lit ''play'' \<noteq> lit ''stop''" "lit ''play'' \<noteq> lit ''volume''" "lit ''play'' \<noteq> lit ''status''"
  "lit ''stop'' \<noteq> lit ''play''" "lit ''stop'' \<noteq> lit ''volume''" "lit ''stop'' \<noteq> lit ''status''"
  "lit ''volume'' \<noteq> lit ''play''" "lit ''volume'' \<noteq> lit ''stop''" "lit ''volume'' \<noteq> lit ''status''"
  "lit ''status'' \<noteq> lit ''play''" "lit ''status'' \<noteq> lit ''stop''" "lit ''status'' \<noteq> lit ''volume''"
  by (simp_all add: lit_def)

lemma raw_volume:
  "action c = Some (lit ''volume'') \<Longrightarrow>
   raw (formatCommand c) = lit ''V:'' @ numberToString (clampVolume (volumeOrDefault (volume c)))"
  by (simp add: formatCommand_fields rawAndDescription_def Let_def action_names_distinct)

lemma playFields_volume: "snd (snd (snd (playFields c))) = clampVolume (volumeOrDefault (volume c))"
  by (simp add: playFields_def Let_def)

lemma lastField_play_volume:
  assumes "action c = Some (lit ''play'') \<or> action c = Some (lit ''volume'')"
  shows "lastField (raw (formatCommand c)) = numberToString (clampVolume (volumeOrDefault (volume c)))"
proof -
  let ?n = "numberToString (clampVolume (volumeOrDefault (volume c)))"
  have nc: "0x3A \<notin> set ?n"
    by (rule numberToString_no_colon) (simp_all add: clampVolume_bounds)
  from assms show ?thesis
  proof
    assume p: "action c = Some (lit ''play'')"
    obtain a b d v where pf: "playFields c = (a, b, d, v)"
      by (cases "playFields c") auto
    with playFields_volume [of c] have v: "v = clampVolume (volumeOrDefault (volume c))"
      by simp
    have "lastField ((lit ''P:'' @ a @ lit '':'' @ b @ lit '':'' @ d) @ 0x3A # ?n) = ?n"
      by (rule lastField_append [OF nc])
    then show ?thesis
      by (simp add: raw_play [OF p] pf v colon)
  next
    assume p: "action c = Some (lit ''volume'')"
    have "lastField (lit ''V'' @ 0x3A # ?n) = ?n"
      by (rule lastField_append [OF nc])
    then show ?thesis
      by (simp add: raw_volume [OF p] lit_def)
  qed
qed

text \<open>
  C7. The clamp is \<open>min(10, max(0, v))\<close> for every integer \<open>v\<close>, with
  \<open>clamp(-5) = 0\<close>, \<open>clamp(15) = 10\<close> and \<open>clamp(5) = 5\<close>; and in every encoded
  play or volume command the volume field, the text after the last colon of \<open>raw\<close>, is
  the decimal form of an integer between 0 and 10.
\<close>

theorem clampVolume_range:
  "clampVolume v = min 10 (max 0 v)
   \<and> clampVolume (- 5) = 0 \<and> clampVolume 15 = 10 \<and> clampVolume 5 = 5
   \<and> (action c = Some (lit ''play'') \<or> action c = Some (lit ''volume'') \<longrightarrow>
        (\<exists>n. 0 \<le> n \<and> n \<le> 10 \<and> lastField (raw (formatCommand c)) = numberToString n))"
proof -
  have fixed: "clampVolume v = min 10 (max 0 v)"
    "clampVolume (- 5) = 0" "clampVolume 15 = 10" "clampVolume 5 = 5"
    by (simp_all add: clampVolume_def)
  have field: "\<exists>n. 0 \<le> n \<and> n \<le> 10 \<and> lastField (raw (formatCommand c)) = numberToString n"
    if "action c = Some (lit ''play'') \<or> action c = Some (lit ''volume'')"
    using lastField_play_volume [OF that] clampVolume_bounds by blast
  from fixed field show ?thesis
    by blast
qed

theorem clampVolume_range_witness:
  "(action \<lparr>action = Some (lit ''volume''), system = None, soundCode = None, location = None, volume = Some 15\<rparr> = Some (lit ''play'')
    \<or> action \<lparr>action = Some (lit ''volume''), system = None, soundCode = None, location = None, volume = Some 15\<rparr> = Some (lit ''volume''))
   \<and> (\<exists>n. 0 \<le> n \<and> n \<le> 10 \<and>
         lastField (raw (formatCommand \<lparr>action = Some (lit ''volume''), system = None, soundCode = None, location = None, volume = Some 15\<rparr>))
           = numberToString n)"
  using clampVolume_range [of 15 "\<lparr>action = Some (lit ''volume''), system = None, soundCode = None, location = None, volume = Some 15\<rparr>"]
  by simp

lemmas encoder_eval =
  formatCommand_def rawAndDescription_def playFields_def lit_def getProperty_def
  SYSTEM_CODES_def LOCATION_CODES_def orElse_def optValue_def toUpperCase_def upperUnit_def
  clampVolume_def volumeOrDefault_def numberToString_def digitsOf.simps digitChar_def Let_def
  objectPrototype_def objectPrototypeMethods_def calculateChecksum_def STX_def ETX_def

text \<open>
  C10. A volume of exactly 0 is encoded as the default 5, as a missing volume is: the two
  commands format to the same result, a volume command with volume 0 has
  \<open>raw = "V:5"\<close>, and the volume field of a play command with volume 0 is \<open>"5"\<close>.
\<close>

theorem volume_zero_is_default:
  "formatCommand (c\<lparr>volume := Some 0\<rparr>) = formatCommand (c\<lparr>volume := None\<rparr>)
   \<and> raw (formatCommand \<lparr>action = Some (lit ''volume''), system = s, soundCode = sc,
                          location = l, volume = Some 0\<rparr>) = lit ''V:5''
   \<and> lastField (raw (formatCommand \<lparr>action = Some (lit ''play''), system = s, soundCode = sc,
                          location = l, volume = Some 0\<rparr>)) = lit ''5''"
proof -
  have same: "formatCommand (c\<lparr>volume := Some 0\<rparr>) = formatCommand (c\<lparr>volume := None\<rparr>)"
    by (simp add: formatCommand_def rawAndDescription_def playFields_def volumeOrDefault_def)
  have five: "numberToString (clampVolume (volumeOrDefault (Some 0))) = lit ''5''"
    by (simp add: clampVolume_def volumeOrDefault_def numberToString_def digitsOf.simps
        digitChar_def lit_def)
  have vol: "raw (formatCommand \<lparr>action = Some (lit ''volume''), system = s, soundCode = sc,
                          location = l, volume = Some 0\<rparr>) = lit ''V:5''"
    using five by (simp add: raw_volume lit_def)
  have play: "lastField (raw (formatCommand \<lparr>action = Some (lit ''play''), system = s,
                soundCode = sc, location = l, volume = Some 0\<rparr>)) = lit ''5''"
    using five by (simp add: lastField_play_volume)
  from same vol play show ?thesis
    by blast
qed

text \<open>
  C2, at a system key that \<open>Object.prototype\<close> answers: the read \<open>SYSTEM_CODES[...]\<close>
  finds the inherited \<open>constructor\<close>, a function and so truthy, and the fallback
  \<open>'U'\<close> is not taken; the same happens to a location key such as \<open>toString\<close>.
\<close>

theorem formatCommand_inherited_key:
  "raw (formatCommand \<lparr>action = Some (lit ''play''), system = Some (lit ''constructor''),
          soundCode = Some (lit ''lung_normal''), location = Some (lit ''right-upper-anterior''),
          volume = Some 12\<rparr>)
     = lit ''P:function Object() { [native code] }:LUNG_NORMAL:RUA:10''
   \<and> raw (formatCommand \<lparr>action = Some (lit ''play''), system = Some (lit ''lung''),
          soundCode = Some (lit ''lung_normal''), location = Some (lit ''toString''),
          volume = Some 12\<rparr>)
     = lit ''P:L:LUNG_NORMAL:function toString() { [native code] }:10''"
  by (simp add: encoder_eval)

lemma worked_example:
  "raw (formatCommand \<lparr>action = Some (lit ''play''), system = Some (lit ''lung''),
          soundCode = Some (lit ''lung_normal''), location = Some (lit ''right-upper-anterior''),
          volume = Some 12\<rparr>) = lit ''P:L:LUNG_NORMAL:RUA:10''"
  "length (bytes (formatCommand \<lparr>action = Some (lit ''play''), system = Some (lit ''lung''),
          soundCode = Some (lit ''lung_normal''), location = Some (lit ''right-upper-anterior''),
          volume = Some 12\<rparr>)) = 25"
  by (simp_all add: encoder_eval)

lemma fitsByte_append [simp]: "fitsByte (a @ b) \<longleftrightarrow> fitsByte a \<and> fitsByte b"
  by (simp add: fitsByte_def)

lemma of_char_word_less: "(of_char ch :: codeunit) < 0x100"
proof -
  have n: "(of_char ch :: nat) < 256"
    by (cases ch) simp
  then have "(of_char ch :: nat) mod 65536 = of_char ch"
    by (intro mod_less) linarith
  with n have "unat (of_nat (of_char ch) :: codeunit) < 256"
    by (simp add: unat_of_nat)
  then show ?thesis
    by (simp add: word_less_nat_alt of_nat_of_char)
qed

lemma fitsByte_lit [simp]: "fitsByte (lit s)"
  by (simp add: fitsByte_def lit_def list_all_iff of_char_word_less)

lemma fitsByte_upper: "isAscii s \<Longrightarrow> fitsByte (toUpperCase s)"
proof (induction s)
  case Nil
  then show ?case by (simp add: toUpperCase_def fitsByte_def)
next
  case (Cons u s)
  then have u: "u < 0x80" and s: "fitsByte (toUpperCase s)"
    by (simp_all add: isAscii_def)
  have "fitsByte (upperUnit u)"
  proof (cases "0x61 \<le> u \<and> u \<le> 0x7A")
    case True
    then have "u - 0x20 < 0x100"
      by unat_arith
    with True show ?thesis
      by (simp add: upperUnit_def fitsByte_def)
  next
    case False
    with u show ?thesis
      by (auto simp: upperUnit_def fitsByte_def) unat_arith+
  qed
  with s show ?case
    by (simp add: toUpperCase_def)
qed

lemma fitsByte_prototype: "fitsByte (toStringJS (orElse (objectPrototype k) (JString d))) \<or> \<not> fitsByte d"
proof (cases "map_of objectPrototypeMethods k")
  case None
  then show ?thesis
    by (simp add: objectPrototype_def orElse_def)
next
  case (Some name)
  then have "(k, name) \<in> set objectPrototypeMethods"
    by (rule map_of_SomeD)
  then have "fitsByte name"
    by (auto simp: objectPrototypeMethods_def)
  with Some show ?thesis
    by (simp add: objectPrototype_def orElse_def)
qed

lemma fitsByte_lookup:
  assumes d: "fitsByte d" and t: "list_all (\<lambda>kv. fitsByte (snd kv)) table"
  shows "fitsByte (toStringJS (orElse (getProperty table k) (JString d)))"
proof (cases "map_of table k")
  case None
  with d fitsByte_prototype [of k d] show ?thesis
    by (simp add: getProperty_def)
next
  case (Some v)
  then have "(k, v) \<in> set table"
    by (rule map_of_SomeD)
  with t have "fitsByte v"
    by (auto simp: list_all_iff)
  with Some d show ?thesis
    by (simp add: getProperty_def orElse_def)
qed

lemma tables_fit:
  "list_all (\<lambda>kv. fitsByte (snd kv)) SYSTEM_CODES"
  "list_all (\<lambda>kv. fitsByte (snd kv)) LOCATION_CODES"
  by (simp_all add: SYSTEM_CODES_def LOCATION_CODES_def)

lemma fitsByte_number: "0 \<le> n \<Longrightarrow> fitsByte (numberToString n)"
  using numberToString_decimal [of n] decimal_fits
  by (auto simp: fitsByte_def list_all_iff)

lemma fitsByte_raw:
  assumes "case soundCode c of None \<Rightarrow> True | Some s \<Rightarrow> isAscii s"
  shows "fitsByte (raw (formatCommand c))"
proof -
  let ?v = "clampVolume (volumeOrDefault (volume c))"
  have num: "fitsByte (numberToString ?v)"
    by (rule fitsByte_number) (simp_all add: clampVolume_bounds)
  have snd: "fitsByte (toStringJS (orElse (optValue (map_option toUpperCase (soundCode c)))
               (JString (lit ''UNK''))))"
    using assms by (cases "soundCode c") (simp_all add: optValue_def orElse_def fitsByte_upper)
  have "fitsByte (fst (rawAndDescription c))"
    using num snd
    by (simp add: rawAndDescription_def playFields_def Let_def fitsByte_lookup tables_fit)
  then show ?thesis
    by (simp add: formatCommand_fields)
qed

text \<open>
  C8, as the code has it. Every element of \<open>bytes\<close> is a 16-bit code unit or one of the
  two markers or the checksum, so it is below 65536; when the sound code is absent or
  made of ASCII code units only, every element is an 8-bit byte.
\<close>

theorem formatCommand_bytes_range:
  "(\<forall>b \<in> set (bytes (formatCommand c)). b < 65536)
   \<and> ((case soundCode c of None \<Rightarrow> True | Some s \<Rightarrow> isAscii s) \<longrightarrow>
        (\<forall>b \<in> set (bytes (formatCommand c)). b \<le> 255))"
proof -
  let ?r = "raw (formatCommand c)"
  have b: "bytes (formatCommand c) = 2 # charCodes ?r @ [3, calculateChecksum ?r]"
    by (simp add: formatCommand_fields STX_def ETX_def)
  have k: "calculateChecksum ?r < 256"
    by (simp add: calculateChecksum_def)
  have wide: "\<forall>n \<in> set (charCodes ?r). n < 65536"
  proof
    fix n
    assume "n \<in> set (charCodes ?r)"
    then obtain u :: codeunit where "n = unat u"
      by (auto simp: charCodes_def)
    with unsigned_less [of u, where 'a = nat] show "n < 65536"
      by simp
  qed
  have narrow: "\<forall>n \<in> set (charCodes ?r). n \<le> 255"
    if "case soundCode c of None \<Rightarrow> True | Some s \<Rightarrow> isAscii s"
    using fitsByte_raw [OF that]
    by (auto simp: charCodes_def fitsByte_def list_all_iff word_less_nat_alt)
  from k wide narrow show ?thesis
    unfolding b by auto
qed

theorem formatCommand_bytes_range_witness:
  "isAscii (lit ''lung_normal'')
   \<and> list_all (\<lambda>b. b \<le> 255)
        (bytes (formatCommand \<lparr>action = Some (lit ''play''), system = Some (lit ''lung''),
           soundCode = Some (lit ''lung_normal''), location = Some (lit ''right-upper-anterior''),
           volume = Some 12\<rparr>))"
proof -
  have a: "isAscii (lit ''lung_normal'')"
    by (simp add: isAscii_def lit_def)
  with formatCommand_bytes_range [of "\<lparr>action = Some (lit ''play''),
      system = Some (lit ''lung''), soundCode = Some (lit ''lung_normal''),
      location = Some (lit ''right-upper-anterior''), volume = Some 12\<rparr>"]
  show ?thesis
    by (simp add: list_all_iff)
qed

text \<open>
  A play command whose sound code is the single character U+20AC: the code unit 8364 is
  pushed as it is, at index 5 of \<open>bytes\<close>.
\<close>

theorem formatCommand_wide_unit:
  "bytes (formatCommand \<lparr>action = Some (lit ''play''), system = Some (lit ''lung''),
          soundCode = Some [0x20AC], location = Some (lit ''aortic''), volume = Some 5\<rparr>)
     = [2, 80, 58, 76, 58, 8364, 58, 65, 79, 82, 58, 53, 3, 71]"
  by (simp add: encoder_eval)

lemma keyOf_simps [simp]: "keyOf None = []" "keyOf (Some s) = s"
  by (simp_all add: keyOf_def optValue_def orElse_def)

lemma objectPrototype_own:
  "k \<notin> set inheritedKeys \<Longrightarrow> objectPrototype k = JUndefined"
proof -
  assume k: "k \<notin> set inheritedKeys"
  then have "k \<notin> fst ` set objectPrototypeMethods"
    by (simp add: inheritedKeys_def)
  then show ?thesis
    by (simp add: objectPrototype_def map_of_eq_None_iff [THEN iffD2])
qed

lemma toUpperCase_empty: "toUpperCase s = [] \<longleftrightarrow> s = []"
  by (cases s) (auto simp: toUpperCase_def upperUnit_def)

lemma system_lookup:
  assumes "keyOf s \<notin> set inheritedKeys"
  shows "toStringJS (orElse (getProperty SYSTEM_CODES (keyOf s)) (JString (lit ''U'')))
           = specSystemCode s"
proof (cases s)
  case None
  then show ?thesis
    by (simp add: getProperty_def SYSTEM_CODES_def objectPrototype_def
        objectPrototypeMethods_def orElse_def specSystemCode_def lit_def)
next
  case (Some k)
  with assms have "objectPrototype k = JUndefined"
    by (simp add: objectPrototype_own)
  with Some show ?thesis
    by (simp add: getProperty_def SYSTEM_CODES_def orElse_def specSystemCode_def)
      (simp add: lit_def)
qed

lemma location_values_truthy:
  "map_of LOCATION_CODES k = Some v \<Longrightarrow> v \<noteq> []"
proof -
  assume "map_of LOCATION_CODES k = Some v"
  then have "(k, v) \<in> set LOCATION_CODES"
    by (rule map_of_SomeD)
  then show ?thesis
    by (auto simp: LOCATION_CODES_def lit_def)
qed

lemma location_lookup:
  assumes "keyOf l \<notin> set inheritedKeys"
  shows "toStringJS (orElse (getProperty LOCATION_CODES (keyOf l)) (JString (lit ''UNK'')))
           = specLocationCode l"
proof -
  have undef: "objectPrototype (keyOf l) = JUndefined"
    using assms by (rule objectPrototype_own)
  have empty: "map_of LOCATION_CODES [] = None"
    by (simp add: LOCATION_CODES_def lit_def)
  show ?thesis
  proof (cases "map_of LOCATION_CODES (keyOf l)")
    case None
    with undef empty show ?thesis
      by (cases l) (simp_all add: getProperty_def orElse_def specLocationCode_def)
  next
    case (Some v)
    with empty obtain k where l: "l = Some k"
      by (cases l) simp_all
    with Some location_values_truthy [of k v] show ?thesis
      by (simp add: getProperty_def orElse_def specLocationCode_def)
  qed
qed

lemma sound_code:
  "toStringJS (orElse (optValue (map_option toUpperCase sc)) (JString (lit ''UNK'')))
     = specSoundCode sc"
  by (cases sc) (simp_all add: optValue_def orElse_def specSoundCode_def toUpperCase_empty)

lemma raw_play_mapped:
  assumes "action c = Some (lit ''play'')"
    and "keyOf (system c) \<notin> set inheritedKeys"
    and "keyOf (location c) \<notin> set inheritedKeys"
  shows "raw (formatCommand c) =
           lit ''P:'' @ specSystemCode (system c) @ lit '':'' @ specSoundCode (soundCode c)
             @ lit '':'' @ specLocationCode (location c) @ lit '':''
             @ numberToString (clampVolume (volumeOrDefault (volume c)))"
  using assms system_lookup [of "system c"] location_lookup [of "location c"]
    sound_code [of "soundCode c"]
  by (simp add: raw_play playFields_def Let_def keyOf_def)

section \<open>Properties of the diagnostics log\<close>

lemma sliceLast_snoc: "sliceLast 99 xs @ [e] = sliceLast 100 (xs @ [e])"
  by (simp add: sliceLast_def)

lemma sliceLast_absorb: "sliceLast n (sliceLast n xs @ ys) = sliceLast n (xs @ ys)"
proof (cases "n \<le> length xs")
  case True
  then show ?thesis
    by (simp add: sliceLast_def add.commute)
next
  case False
  then show ?thesis
    by (simp add: sliceLast_def)
qed

lemma length_sliceLast: "length (sliceLast n xs) = min n (length xs)"
  by (simp add: sliceLast_def)

lemma length_stamped [simp]: "length (stamped clock n ms) = length ms"
  by (induction ms arbitrary: n) simp_all

lemma logAll_Cons: "logAll clock (m # ms) st = logAll clock ms (addLog clock m st)"
  by (simp add: logAll_def)

lemma logAll_logs:
  "ms \<noteq> [] \<Longrightarrow>
   logs (logAll clock ms st) = sliceLast 100 (logs st @ stamped clock (clockReads st) ms)"
proof (induction ms arbitrary: st)
  case Nil
  then show ?case by simp
next
  case (Cons m ms)
  let ?st1 = "addLog clock m st"
  have l1: "logs ?st1 = sliceLast 100 (logs st @ [logLine (clock (clockReads st)) m])"
    by (simp add: addLog_def sliceLast_snoc)
  have c1: "clockReads ?st1 = Suc (clockReads st)"
    by (simp add: addLog_def)
  show ?case
  proof (cases "ms = []")
    case True
    with l1 show ?thesis
      by (simp add: logAll_def)
  next
    case False
    with Cons.IH [of ?st1] have
      "logs (logAll clock ms ?st1) = sliceLast 100 (logs ?st1 @ stamped clock (clockReads ?st1) ms)"
      by simp
    then show ?thesis
      by (simp add: logAll_Cons l1 c1 sliceLast_absorb)
  qed
qed

text \<open>
  C9. An insertion never leaves more than 100 lines, whatever the log held before; and
  from the empty log, after 150 insertions exactly 100 lines are stored, namely all the
  lines in insertion order without the first 50.
\<close>

theorem addLog_bound:
  "length (logs (addLog clock m st)) \<le> 100
   \<and> length (logs (logAll clock ms (initialState b))) = min 100 (length ms)
   \<and> (length ms = 150 \<longrightarrow>
        length (logs (logAll clock ms (initialState b))) = 100
        \<and> logs (logAll clock ms (initialState b)) = drop 50 (stamped clock 0 ms))"
proof -
  have one: "length (logs (addLog clock m st)) \<le> 100"
    by (simp add: addLog_def sliceLast_def)
  have all: "logs (logAll clock ms (initialState b)) = sliceLast 100 (stamped clock 0 ms)"
  proof (cases "ms = []")
    case True
    then show ?thesis
      by (simp add: logAll_def initialState_def sliceLast_def)
  next
    case False
    then show ?thesis
      by (simp add: logAll_logs initialState_def)
  qed
  from one all show ?thesis
    by (simp add: length_sliceLast) (simp add: sliceLast_def)
qed

theorem addLog_bound_witness:
  "length (replicate 150 ([] :: jsstring)) = 150
   \<and> length (logs (logAll fixedClock (replicate 150 []) (initialState True))) = 100
   \<and> logs (logAll fixedClock (replicate 150 []) (initialState True))
       = drop 50 (stamped fixedClock 0 (replicate 150 []))"
  using addLog_bound [of fixedClock "[]" "initialState True" "replicate 150 []" True]
  by simp

section \<open>Properties of the read loop\<close>

lemma splitAcc_nonempty: "splitAcc p cur s \<noteq> []"
  by (induction s arbitrary: cur) simp_all

lemma splitAcc_length: "length (splitAcc p cur s) = Suc (length (filter p s))"
  by (induction s arbitrary: cur) simp_all

lemma splitAcc_concat: "concat (splitAcc p cur s) = rev cur @ filter (\<lambda>c. \<not> p c) s"
  by (induction s arbitrary: cur) simp_all

lemma splitAcc_clean:
  "list_all (\<lambda>c. \<not> p c) cur \<Longrightarrow>
   list_all (list_all (\<lambda>c. \<not> p c)) (splitAcc p cur s)"
  by (induction s arbitrary: cur) simp_all

lemma addLog_deviceStatus [simp]: "deviceStatus (addLog clock m st) = deviceStatus st"
  by (simp add: addLog_def)

lemma handleLine_recordReceived:
  "handleLine clock st line =
     (if trim line \<noteq> [] then recordReceived clock st (trim line) else st)"
  by (simp add: handleLine_def recordReceived_def Let_def)

lemma foldl_handleLine:
  "foldl (handleLine clock) st lines
     = foldl (recordReceived clock) st (filter (\<lambda>m. m \<noteq> []) (map trim lines))"
  by (induction lines arbitrary: st) (simp_all add: handleLine_recordReceived)

lemma recordReceived_time:
  "lastCommandTime (deviceStatus (recordReceived clock st m)) = lastCommandTime (deviceStatus st)"
  by (simp add: recordReceived_def)

lemma foldl_recordReceived_time:
  "lastCommandTime (deviceStatus (foldl (recordReceived clock) st ms))
     = lastCommandTime (deviceStatus st)"
  by (induction ms arbitrary: st) (simp_all add: recordReceived_time)

lemma processChunk_eq:
  "processChunk clock decoded (buffer, st) =
     (last (splitRegExp isTerminator (buffer @ decoded)),
      foldl (recordReceived clock) st (completeMessages (buffer @ decoded)))"
  by (simp add: processChunk_def pop_def splitRegExp_def splitAcc_nonempty Let_def
      foldl_handleLine completeMessages_def)

lemma split_example:
  "splitRegExp isTerminator (lit ''A'' @ [0x0A] @ lit ''B'' @ [0x03] @ lit ''C'') = [lit ''A'', lit ''B'', lit ''C'']"
  by (simp add: splitRegExp_def lit_def isTerminator_def)

lemma trim_example:
  "trim (lit ''A'') = lit ''A''" "trim (lit ''B'') = lit ''B''"
  "lit ''A'' \<noteq> []" "lit ''B'' \<noteq> []"
  by (simp_all add: lit_def trim_def isWhiteSpace_def)

text \<open>
  C3, as the code has it. A chunk is appended to the carry-over and the text is cut at
  every newline and every 0x03 alike: there is one segment more than there are
  terminators, no segment holds a terminator, and the segments in order are the text
  without its terminators. The last segment is the new carry-over; every other segment,
  trimmed and if not empty, is logged as received and becomes \<open>lastResponse\<close>, in
  order. \<open>lastCommandTime\<close> is not touched. Feeding \<open>"A\nB\x03C"\<close> to an empty
  carry-over records \<open>"A"\<close>, then \<open>"B"\<close>, and leaves \<open>"C"\<close>.
\<close>

theorem processChunk_messages:
  "fst (processChunk clock decoded (buffer, st))
     = last (splitRegExp isTerminator (buffer @ decoded))
   \<and> snd (processChunk clock decoded (buffer, st))
       = foldl (recordReceived clock) st (completeMessages (buffer @ decoded))
   \<and> length (splitRegExp isTerminator s) = Suc (length (filter isTerminator s))
   \<and> concat (splitRegExp isTerminator s) = filter (\<lambda>c. \<not> isTerminator c) s
   \<and> list_all (list_all (\<lambda>c. \<not> isTerminator c)) (splitRegExp isTerminator s)
   \<and> logs (recordReceived clock st m)
       = sliceLast 99 (logs st) @ [logLine (clock (clockReads st)) (receivedPrefix @ m)]
   \<and> lastResponse (deviceStatus (recordReceived clock st m)) = Some m
   \<and> lastCommandTime (deviceStatus (snd (processChunk clock decoded (buffer, st))))
       = lastCommandTime (deviceStatus st)
   \<and> processChunk clock (lit ''A'' @ [0x0A] @ lit ''B'' @ [0x03] @ lit ''C'') ([], st)
       = (lit ''C'', recordReceived clock (recordReceived clock st (lit ''A'')) (lit ''B''))"
proof -
  have cut:
    "length (splitRegExp isTerminator s) = Suc (length (filter isTerminator s))"
    "concat (splitRegExp isTerminator s) = filter (\<lambda>c. \<not> isTerminator c) s"
    "list_all (list_all (\<lambda>c. \<not> isTerminator c)) (splitRegExp isTerminator s)"
    by (simp_all add: splitRegExp_def splitAcc_length splitAcc_concat splitAcc_clean)
  have rec:
    "logs (recordReceived clock st m)
       = sliceLast 99 (logs st) @ [logLine (clock (clockReads st)) (receivedPrefix @ m)]"
    "lastResponse (deviceStatus (recordReceived clock st m)) = Some m"
    by (simp_all add: recordReceived_def addLog_def)
  have example:
    "processChunk clock (lit ''A'' @ [0x0A] @ lit ''B'' @ [0x03] @ lit ''C'') ([], st)
       = (lit ''C'', recordReceived clock (recordReceived clock st (lit ''A'')) (lit ''B''))"
    using split_example trim_example
    by (simp add: processChunk_eq completeMessages_def)
  show ?thesis
    using cut rec example
    by (simp add: processChunk_eq foldl_recordReceived_time)
qed

text \<open>
  The read loop on the chunk \<open>"A\n"\<close>, from the initial state with a reader held: the
  message is recorded as \<open>lastResponse\<close> and \<open>lastCommandTime\<close> is still \<open>null\<close>.
\<close>

theorem readLoop_lastCommandTime_unset:
  "lastResponse (deviceStatus
     (readLoop fixedClock [Chunk (lit ''A'' @ [0x0A])] ((initialState True)\<lparr>readerRef := Some 1\<rparr>)))
     = Some (lit ''A'')
   \<and> lastCommandTime (deviceStatus
     (readLoop fixedClock [Chunk (lit ''A'' @ [0x0A])] ((initialState True)\<lparr>readerRef := Some 1\<rparr>)))
     = None"
  by (simp add: readLoop_def processChunk_eq completeMessages_def splitRegExp_def lit_def
      isTerminator_def trim_def isWhiteSpace_def recordReceived_def initialState_def
      initialDeviceStatus_def)

text \<open>
  Reassembly across chunks: \<open>"OK:PLAYING:LU"\<close> and then \<open>"NG\n"\<close> record the one
  message \<open>"OK:PLAYING:LUNG"\<close> and leave an empty carry-over.
\<close>

lemma processChunk_across_chunks:
  "processChunk clock (lit ''NG'' @ [0x0A]) (processChunk clock (lit ''OK:PLAYING:LU'') ([], st))
     = ([], recordReceived clock st (lit ''OK:PLAYING:LUNG''))"
  by (simp add: processChunk_eq completeMessages_def splitRegExp_def lit_def isTerminator_def
      trim_def isWhiteSpace_def)

section \<open>Properties of connect and disconnect\<close>

lemma connectedState_eval:
  "isSupported connectedState" "isConnected connectedState" "\<not> isConnecting connectedState"
  "readerRef connectedState = Some 1" "writerRef connectedState = Some 1"
  "portRef connectedState = Some arduinoPort"
  "effects connectedState =
     [RequestPort, PortOpen 1 DEFAULT_SERIAL_OPTIONS, GetWriter 1, GetReader 1, ReadLoopStarted,
      Toast ToastSuccess (lit ''Connected to Arduino'')]"
  by (simp_all add: connectedState_def connect_def callbackOf_def portGranted_def
      arduinoPort_def initialState_def emit_def addLog_def Let_def mergeOptions_def
      noOptions_def DEFAULT_SERIAL_OPTIONS_def)

lemma disconnect_success:
  assumes "readerRef st = Some r" and "writerRef st = Some w" and "portRef st = Some p"
    and "cancelResult env = None" and "releaseLockResult env = None"
    and "writerCloseResult env = None" and "portCloseResult env = None"
  shows "disconnect env clock st =
           emit (Toast ToastSuccess (lit ''Disconnected from Arduino''))
             (addLog clock (lit ''Disconnected from serial device'')
               (st\<lparr>readerRef := None, writerRef := None, portRef := None, isConnected := False,
                   deviceStatus := initialDeviceStatus,
                   effects := effects st @ [ReaderCancel, ReaderReleaseLock, WriterClose, PortClose]\<rparr>))"
  using assms
  by (simp add: disconnect_def teardown_def andThen_def attempt_def emit_def addLog_def)

lemma disconnect_cancel_fails:
  assumes "readerRef st = Some r" and "cancelResult env = Some e"
  shows "disconnect env clock st =
           addLog clock (lit ''Disconnect error: '' @ errorMessage e)
             (st\<lparr>effects := effects st @ [ReaderCancel, ConsoleError (lit ''Disconnect error:'')]\<rparr>)"
  using assms
  by (simp add: disconnect_def teardown_def andThen_def attempt_def emit_def addLog_def)

lemma disconnect_release_fails:
  assumes "readerRef st = Some r" and "cancelResult env = None"
    and "releaseLockResult env = Some e"
  shows "disconnect env clock st =
           addLog clock (lit ''Disconnect error: '' @ errorMessage e)
             (st\<lparr>effects := effects st
                 @ [ReaderCancel, ReaderReleaseLock, ConsoleError (lit ''Disconnect error:'')]\<rparr>)"
  using assms
  by (simp add: disconnect_def teardown_def andThen_def attempt_def emit_def addLog_def)

lemma disconnect_writer_fails:
  assumes "readerRef st = Some r" and "writerRef st = Some w"
    and "cancelResult env = None" and "releaseLockResult env = None"
    and "writerCloseResult env = Some e"
  shows "disconnect env clock st =
           addLog clock (lit ''Disconnect error: '' @ errorMessage e)
             (st\<lparr>readerRef := None,
                 effects := effects st
                   @ [ReaderCancel, ReaderReleaseLock, WriterClose,
                      ConsoleError (lit ''Disconnect error:'')]\<rparr>)"
  using assms
  by (simp add: disconnect_def teardown_def andThen_def attempt_def emit_def addLog_def)

lemma disconnect_port_fails:
  assumes "readerRef st = Some r" and "writerRef st = Some w" and "portRef st = Some p"
    and "cancelResult env = None" and "releaseLockResult env = None"
    and "writerCloseResult env = None" and "portCloseResult env = Some e"
  shows "disconnect env clock st =
           addLog clock (lit ''Disconnect error: '' @ errorMessage e)
             (st\<lparr>readerRef := None, writerRef := None,
                 effects := effects st
                   @ [ReaderCancel, ReaderReleaseLock, WriterClose, PortClose,
                      ConsoleError (lit ''Disconnect error:'')]\<rparr>)"
  using assms
  by (simp add: disconnect_def teardown_def andThen_def attempt_def emit_def addLog_def)

lemma newEffects_append [simp]:
  "effects st' = effects st @ es \<Longrightarrow> newEffects st st' = es"
  by (simp add: newEffects_def)

text \<open>
  C4, as the code has it. With reader, writer and port held, \<open>disconnect()\<close> calls
  \<open>cancel\<close>, \<open>releaseLock\<close>, \<open>writer.close\<close> and \<open>port.close\<close> in this order inside one
  \<open>try\<close> block. When none of them throws, all four are made, the handles are cleared
  and the hook ends not connected. The first call that throws skips the calls after
  it: the failure is logged as \<open>Disconnect error: ...\<close> and not propagated, and
  \<open>isConnected\<close> and the handles not yet cleared stay as they were.
\<close>

theorem disconnect_teardown:
  assumes "readerRef st = Some r" and "writerRef st = Some w" and "portRef st = Some p"
  shows
    "(cancelResult env = None \<and> releaseLockResult env = None
        \<and> writerCloseResult env = None \<and> portCloseResult env = None \<longrightarrow>
        disconnect env clock st =
          emit (Toast ToastSuccess (lit ''Disconnected from Arduino''))
            (addLog clock (lit ''Disconnected from serial device'')
              (st\<lparr>readerRef := None, writerRef := None, portRef := None, isConnected := False,
                  deviceStatus := initialDeviceStatus,
                  effects := effects st
                    @ [ReaderCancel, ReaderReleaseLock, WriterClose, PortClose]\<rparr>))
        \<and> \<not> isConnected (disconnect env clock st)
        \<and> newEffects st (disconnect env clock st) =
            [ReaderCancel, ReaderReleaseLock, WriterClose, PortClose,
             Toast ToastSuccess (lit ''Disconnected from Arduino'')])
     \<and> (cancelResult env = Some e \<longrightarrow>
        disconnect env clock st =
          addLog clock (lit ''Disconnect error: '' @ errorMessage e)
            (st\<lparr>effects := effects st
                @ [ReaderCancel, ConsoleError (lit ''Disconnect error:'')]\<rparr>)
        \<and> isConnected (disconnect env clock st) = isConnected st)
     \<and> (cancelResult env = None \<and> releaseLockResult env = Some e \<longrightarrow>
        disconnect env clock st =
          addLog clock (lit ''Disconnect error: '' @ errorMessage e)
            (st\<lparr>effects := effects st
                @ [ReaderCancel, ReaderReleaseLock, ConsoleError (lit ''Disconnect error:'')]\<rparr>)
        \<and> isConnected (disconnect env clock st) = isConnected st)
     \<and> (cancelResult env = None \<and> releaseLockResult env = None
        \<and> writerCloseResult env = Some e \<longrightarrow>
        disconnect env clock st =
          addLog clock (lit ''Disconnect error: '' @ errorMessage e)
            (st\<lparr>readerRef := None,
                effects := effects st
                  @ [ReaderCancel, ReaderReleaseLock, WriterClose,
                     ConsoleError (lit ''Disconnect error:'')]\<rparr>)
        \<and> isConnected (disconnect env clock st) = isConnected st)
     \<and> (cancelResult env = None \<and> releaseLockResult env = None
        \<and> writerCloseResult env = None \<and> portCloseResult env = Some e \<longrightarrow>
        disconnect env clock st =
          addLog clock (lit ''Disconnect error: '' @ errorMessage e)
            (st\<lparr>readerRef := None, writerRef := None,
                effects := effects st
                  @ [ReaderCancel, ReaderReleaseLock, WriterClose, PortClose,
                     ConsoleError (lit ''Disconnect error:'')]\<rparr>)
        \<and> isConnected (disconnect env clock st) = isConnected st)"
proof (intro conjI impI)
  assume ok: "cancelResult env = None \<and> releaseLockResult env = None
        \<and> writerCloseResult env = None \<and> portCloseResult env = None"
  with assms show "disconnect env clock st =
          emit (Toast ToastSuccess (lit ''Disconnected from Arduino''))
            (addLog clock (lit ''Disconnected from serial device'')
              (st\<lparr>readerRef := None, writerRef := None, portRef := None, isConnected := False,
                  deviceStatus := initialDeviceStatus,
                  effects := effects st
                    @ [ReaderCancel, ReaderReleaseLock, WriterClose, PortClose]\<rparr>))"
    by (simp add: disconnect_success)
  from ok assms show "\<not> isConnected (disconnect env clock st)"
    by (simp add: disconnect_success [of st r w p env] emit_def addLog_def)
  from ok assms show "newEffects st (disconnect env clock st) =
            [ReaderCancel, ReaderReleaseLock, WriterClose, PortClose,
             Toast ToastSuccess (lit ''Disconnected from Arduino'')]"
    by (simp add: disconnect_success [of st r w p env] emit_def addLog_def)
next
  assume "cancelResult env = Some e"
  with assms show "disconnect env clock st =
          addLog clock (lit ''Disconnect error: '' @ errorMessage e)
            (st\<lparr>effects := effects st
                @ [ReaderCancel, ConsoleError (lit ''Disconnect error:'')]\<rparr>)"
    and "isConnected (disconnect env clock st) = isConnected st"
    by (simp_all add: disconnect_cancel_fails [of st r env e] addLog_def)
next
  assume "cancelResult env = None \<and> releaseLockResult env = Some e"
  with assms show "disconnect env clock st =
          addLog clock (lit ''Disconnect error: '' @ errorMessage e)
            (st\<lparr>effects := effects st
                @ [ReaderCancel, ReaderReleaseLock, ConsoleError (lit ''Disconnect error:'')]\<rparr>)"
    and "isConnected (disconnect env clock st) = isConnected st"
    by (simp_all add: disconnect_release_fails [of st r env e] addLog_def)
next
  assume "cancelResult env = None \<and> releaseLockResult env = None
        \<and> writerCloseResult env = Some e"
  with assms show "disconnect env clock st =
          addLog clock (lit ''Disconnect error: '' @ errorMessage e)
            (st\<lparr>readerRef := None,
                effects := effects st
                  @ [ReaderCancel, ReaderReleaseLock, WriterClose,
                     ConsoleError (lit ''Disconnect error:'')]\<rparr>)"
    and "isConnected (disconnect env clock st) = isConnected st"
    by (simp_all add: disconnect_writer_fails [of st r w env e] addLog_def)
next
  assume "cancelResult env = None \<and> releaseLockResult env = None
        \<and> writerCloseResult env = None \<and> portCloseResult env = Some e"
  with assms show "disconnect env clock st =
          addLog clock (lit ''Disconnect error: '' @ errorMessage e)
            (st\<lparr>readerRef := None, writerRef := None,
                effects := effects st
                  @ [ReaderCancel, ReaderReleaseLock, WriterClose, PortClose,
                     ConsoleError (lit ''Disconnect error:'')]\<rparr>)"
    and "isConnected (disconnect env clock st) = isConnected st"
    by (simp_all add: disconnect_port_fails [of st r w p env e] addLog_def)
qed

theorem disconnect_teardown_witness:
  "readerRef connectedState = Some 1 \<and> writerRef connectedState = Some 1
   \<and> portRef connectedState = Some arduinoPort
   \<and> cancelResult allSucceed = None \<and> releaseLockResult allSucceed = None
   \<and> writerCloseResult allSucceed = None \<and> portCloseResult allSucceed = None
   \<and> \<not> isConnected (disconnect allSucceed fixedClock connectedState)
   \<and> newEffects connectedState (disconnect allSucceed fixedClock connectedState) =
       [ReaderCancel, ReaderReleaseLock, WriterClose, PortClose,
        Toast ToastSuccess (lit ''Disconnected from Arduino'')]
   \<and> cancelResult cancelFails
       = Some (ErrorObject (lit ''NetworkError'') (lit ''The device has been lost.''))
   \<and> isConnected (disconnect cancelFails fixedClock connectedState)
       = isConnected connectedState
   \<and> isConnected (disconnect (allSucceed\<lparr>releaseLockResult := Some OtherThrown\<rparr>)
         fixedClock connectedState) = isConnected connectedState
   \<and> isConnected (disconnect (allSucceed\<lparr>writerCloseResult := Some OtherThrown\<rparr>)
         fixedClock connectedState) = isConnected connectedState
   \<and> isConnected (disconnect (allSucceed\<lparr>portCloseResult := Some OtherThrown\<rparr>)
         fixedClock connectedState) = isConnected connectedState"
proof -
  let ?lost = "ErrorObject (lit ''NetworkError'') (lit ''The device has been lost.'')"
  note held = connectedState_eval(4) connectedState_eval(5) connectedState_eval(6)
  have ok: "cancelResult allSucceed = None \<and> releaseLockResult allSucceed = None
      \<and> writerCloseResult allSucceed = None \<and> portCloseResult allSucceed = None"
    by (simp add: allSucceed_def)
  have lost: "cancelResult cancelFails = Some ?lost"
    by (simp add: cancelFails_def)
  from ok disconnect_teardown [OF held, where env = allSucceed and clock = fixedClock]
  have torn: "\<not> isConnected (disconnect allSucceed fixedClock connectedState)
      \<and> newEffects connectedState (disconnect allSucceed fixedClock connectedState) =
          [ReaderCancel, ReaderReleaseLock, WriterClose, PortClose,
           Toast ToastSuccess (lit ''Disconnected from Arduino'')]"
    by blast
  from lost disconnect_teardown [OF held, where env = cancelFails and clock = fixedClock
      and e = ?lost]
  have kept: "isConnected (disconnect cancelFails fixedClock connectedState)
      = isConnected connectedState"
    by blast
  have "cancelResult (allSucceed\<lparr>releaseLockResult := Some OtherThrown\<rparr>) = None
      \<and> releaseLockResult (allSucceed\<lparr>releaseLockResult := Some OtherThrown\<rparr>)
          = Some OtherThrown"
    by (simp add: allSucceed_def)
  with disconnect_teardown [OF held, where clock = fixedClock and e = OtherThrown
      and env = "allSucceed\<lparr>releaseLockResult := Some OtherThrown\<rparr>"]
  have kept2: "isConnected (disconnect (allSucceed\<lparr>releaseLockResult := Some OtherThrown\<rparr>)
         fixedClock connectedState) = isConnected connectedState"
    by blast
  have "cancelResult (allSucceed\<lparr>writerCloseResult := Some OtherThrown\<rparr>) = None
      \<and> releaseLockResult (allSucceed\<lparr>writerCloseResult := Some OtherThrown\<rparr>) = None
      \<and> writerCloseResult (allSucceed\<lparr>writerCloseResult := Some OtherThrown\<rparr>)
          = Some OtherThrown"
    by (simp add: allSucceed_def)
  with disconnect_teardown [OF held, where clock = fixedClock and e = OtherThrown
      and env = "allSucceed\<lparr>writerCloseResult := Some OtherThrown\<rparr>"]
  have kept3: "isConnected (disconnect (allSucceed\<lparr>writerCloseResult := Some OtherThrown\<rparr>)
         fixedClock connectedState) = isConnected connectedState"
    by blast
  have "cancelResult (allSucceed\<lparr>portCloseResult := Some OtherThrown\<rparr>) = None
      \<and> releaseLockResult (allSucceed\<lparr>portCloseResult := Some OtherThrown\<rparr>) = None
      \<and> writerCloseResult (allSucceed\<lparr>portCloseResult := Some OtherThrown\<rparr>) = None
      \<and> portCloseResult (allSucceed\<lparr>portCloseResult := Some OtherThrown\<rparr>)
          = Some OtherThrown"
    by (simp add: allSucceed_def)
  with disconnect_teardown [OF held, where clock = fixedClock and e = OtherThrown
      and env = "allSucceed\<lparr>portCloseResult := Some OtherThrown\<rparr>"]
  have kept4: "isConnected (disconnect (allSucceed\<lparr>portCloseResult := Some OtherThrown\<rparr>)
         fixedClock connectedState) = isConnected connectedState"
    by blast
  from held ok lost torn kept kept2 kept3 kept4 show ?thesis
    by blast
qed

text \<open>
  \<open>disconnect()\<close> on a connected hook whose device was lost, so that \<open>cancel()\<close>
  rejects: nothing but \<open>cancel\<close> is called, the hook is still connected and still holds
  the three handles.
\<close>

theorem disconnect_cancel_rejected:
  "isConnected (disconnect cancelFails fixedClock connectedState)
   \<and> newEffects connectedState (disconnect cancelFails fixedClock connectedState)
       = [ReaderCancel, ConsoleError (lit ''Disconnect error:'')]
   \<and> readerRef (disconnect cancelFails fixedClock connectedState) = Some 1
   \<and> writerRef (disconnect cancelFails fixedClock connectedState) = Some 1
   \<and> portRef (disconnect cancelFails fixedClock connectedState) = Some arduinoPort"
proof -
  have c: "cancelResult cancelFails
       = Some (ErrorObject (lit ''NetworkError'') (lit ''The device has been lost.''))"
    by (simp add: cancelFails_def)
  show ?thesis
    using connectedState_eval
    by (simp add: disconnect_cancel_fails [OF connectedState_eval(4) c] addLog_def)
qed

lemma connect_requests:
  assumes "capturedIsSupported closure" and "\<not> capturedIsConnected closure"
  shows "take 1 (newEffects st (snd (connect env clock options closure st))) = [RequestPort]"
  using assms
  by (simp add: connect_def connectFailed_def emit_def addLog_def Let_def newEffects_def
      split: sum.split option.split)

lemma connect_already:
  assumes "capturedIsSupported closure" and "capturedIsConnected closure"
  shows "connect env clock options closure st
           = (True, emit (Toast ToastInfo (lit ''Already connected to a device'')) st)"
  using assms by (simp add: connect_def)

text \<open>
  C5, as the code has it. The guard of \<open>connect()\<close> reads the \<open>isConnected\<close> its
  callback captured, and nothing else. Through a callback that captured
  \<open>isConnected = true\<close> (with \<open>isSupported = true\<close>), and so through the callback of
  the current render of a connected hook, it returns success and does nothing but show
  a toast: no device is requested, no reader or writer is acquired, and the handles are
  the ones held before. Through a callback that captured \<open>isConnected = false\<close> it
  requests a device, whatever \<open>isConnecting\<close> and the live \<open>isConnected\<close> are.
\<close>

theorem connect_guard:
  "(capturedIsSupported closure \<and> capturedIsConnected closure \<longrightarrow>
      connect env clock options closure st
        = (True, emit (Toast ToastInfo (lit ''Already connected to a device'')) st)
      \<and> newEffects st (snd (connect env clock options closure st))
          = [Toast ToastInfo (lit ''Already connected to a device'')]
      \<and> readerRef (snd (connect env clock options closure st)) = readerRef st
      \<and> writerRef (snd (connect env clock options closure st)) = writerRef st
      \<and> portRef (snd (connect env clock options closure st)) = portRef st)
   \<and> (isSupported st \<and> isConnected st \<longrightarrow>
      connect env clock options (callbackOf st) st
        = (True, emit (Toast ToastInfo (lit ''Already connected to a device'')) st))
   \<and> (capturedIsSupported closure \<and> \<not> capturedIsConnected closure \<longrightarrow>
      take 1 (newEffects st (snd (connect env clock options closure st))) = [RequestPort])"
proof (intro conjI impI)
  assume c: "capturedIsSupported closure \<and> capturedIsConnected closure"
  then have eq: "connect env clock options closure st
        = (True, emit (Toast ToastInfo (lit ''Already connected to a device'')) st)"
    by (simp add: connect_already)
  show "connect env clock options closure st
        = (True, emit (Toast ToastInfo (lit ''Already connected to a device'')) st)"
    by (rule eq)
  show "newEffects st (snd (connect env clock options closure st))
          = [Toast ToastInfo (lit ''Already connected to a device'')]"
    by (simp add: eq emit_def newEffects_def)
  show "readerRef (snd (connect env clock options closure st)) = readerRef st"
    and "writerRef (snd (connect env clock options closure st)) = writerRef st"
    and "portRef (snd (connect env clock options closure st)) = portRef st"
    by (simp_all add: eq emit_def)
next
  assume "isSupported st \<and> isConnected st"
  then show "connect env clock options (callbackOf st) st
        = (True, emit (Toast ToastInfo (lit ''Already connected to a device'')) st)"
    by (simp add: connect_already callbackOf_def)
next
  assume "capturedIsSupported closure \<and> \<not> capturedIsConnected closure"
  then have "capturedIsSupported closure" and "\<not> capturedIsConnected closure"
    by simp_all
  then show "take 1 (newEffects st (snd (connect env clock options closure st)))
      = [RequestPort]"
    by (rule connect_requests)
qed

theorem connect_guard_witness:
  "isSupported connectedState \<and> isConnected connectedState
   \<and> capturedIsSupported (callbackOf connectedState)
   \<and> capturedIsConnected (callbackOf connectedState)
   \<and> connect secondPortGranted fixedClock noOptions (callbackOf connectedState) connectedState
       = (True, emit (Toast ToastInfo (lit ''Already connected to a device'')) connectedState)
   \<and> capturedIsSupported (callbackOf connectingState)
   \<and> \<not> capturedIsConnected (callbackOf connectingState)
   \<and> take 1 (newEffects connectingState
        (snd (connect portGranted fixedClock noOptions (callbackOf connectingState)
               connectingState))) = [RequestPort]"
proof -
  have a: "isSupported connectedState \<and> isConnected connectedState"
    and b: "capturedIsSupported (callbackOf connectedState)
      \<and> capturedIsConnected (callbackOf connectedState)"
    using connectedState_eval by (simp_all add: callbackOf_def)
  have c: "capturedIsSupported (callbackOf connectingState)
      \<and> \<not> capturedIsConnected (callbackOf connectingState)"
    by (simp add: callbackOf_def connectingState_def initialState_def)
  from a connect_guard [where st = connectedState and env = secondPortGranted
      and clock = fixedClock and options = noOptions and closure = "callbackOf connectedState"]
  have d: "connect secondPortGranted fixedClock noOptions (callbackOf connectedState)
        connectedState
       = (True, emit (Toast ToastInfo (lit ''Already connected to a device'')) connectedState)"
    by blast
  from c connect_guard [where st = connectingState and env = portGranted
      and clock = fixedClock and options = noOptions and closure = "callbackOf connectingState"]
  have e: "take 1 (newEffects connectingState
        (snd (connect portGranted fixedClock noOptions (callbackOf connectingState)
               connectingState))) = [RequestPort]"
    by blast
  from a b c d e show ?thesis
    by blast
qed

text \<open>
  A second \<open>connect()\<close> while the first is still connecting: the device is requested,
  the port opened, and a writer and a reader acquired. And on a connected hook, the
  callback of the render made before the connection requests a device as well, and
  the hook ends with the reader and the writer of the second port.
\<close>

theorem connect_while_connecting:
  "isConnecting connectingState
   \<and> newEffects connectingState
        (snd (connect portGranted fixedClock noOptions (callbackOf connectingState)
               connectingState))
       = [RequestPort, PortOpen 1 DEFAULT_SERIAL_OPTIONS, GetWriter 1, GetReader 1,
          ReadLoopStarted, Toast ToastSuccess (lit ''Connected to Arduino'')]
   \<and> readerRef (snd (connect portGranted fixedClock noOptions (callbackOf connectingState)
        connectingState)) = Some 1
   \<and> writerRef (snd (connect portGranted fixedClock noOptions (callbackOf connectingState)
        connectingState)) = Some 1
   \<and> isConnected connectedState
   \<and> newEffects connectedState
        (snd (connect secondPortGranted fixedClock noOptions (callbackOf (initialState True))
               connectedState))
       = [RequestPort, PortOpen 2 DEFAULT_SERIAL_OPTIONS, GetWriter 2, GetReader 2,
          ReadLoopStarted, Toast ToastSuccess (lit ''Connected to Arduino'')]
   \<and> readerRef (snd (connect secondPortGranted fixedClock noOptions
        (callbackOf (initialState True)) connectedState)) = Some 2
   \<and> writerRef (snd (connect secondPortGranted fixedClock noOptions
        (callbackOf (initialState True)) connectedState)) = Some 2"
proof -
  have first: "newEffects connectingState
        (snd (connect portGranted fixedClock noOptions (callbackOf connectingState)
               connectingState))
       = [RequestPort, PortOpen 1 DEFAULT_SERIAL_OPTIONS, GetWriter 1, GetReader 1,
          ReadLoopStarted, Toast ToastSuccess (lit ''Connected to Arduino'')]"
    "readerRef (snd (connect portGranted fixedClock noOptions (callbackOf connectingState)
        connectingState)) = Some 1"
    "writerRef (snd (connect portGranted fixedClock noOptions (callbackOf connectingState)
        connectingState)) = Some 1"
    "isConnecting connectingState"
    by (simp_all add: connectingState_def connect_def callbackOf_def portGranted_def
        arduinoPort_def initialState_def emit_def addLog_def Let_def mergeOptions_def
        noOptions_def DEFAULT_SERIAL_OPTIONS_def newEffects_def)
  have stale: "newEffects connectedState
        (snd (connect secondPortGranted fixedClock noOptions (callbackOf (initialState True))
               connectedState))
       = [RequestPort, PortOpen 2 DEFAULT_SERIAL_OPTIONS, GetWriter 2, GetReader 2,
          ReadLoopStarted, Toast ToastSuccess (lit ''Connected to Arduino'')]"
    "readerRef (snd (connect secondPortGranted fixedClock noOptions
        (callbackOf (initialState True)) connectedState)) = Some 2"
    "writerRef (snd (connect secondPortGranted fixedClock noOptions
        (callbackOf (initialState True)) connectedState)) = Some 2"
    by (simp_all add: connect_def callbackOf_def secondPortGranted_def initialState_def
        emit_def addLog_def Let_def mergeOptions_def noOptions_def
        DEFAULT_SERIAL_OPTIONS_def newEffects_def connectedState_eval)
  from first stale connectedState_eval(2) show ?thesis
    by blast
qed

section \<open>Properties of the formatting endpoint\<close>






lemma digitsOf_nonempty: "digitsOf b n \<noteq> []"
  by (simp add: digitsOf.simps [of b n])
























end
